theory Spec2Isabelle
  imports Main
begin

section \<open>Values decoded from JSON text\<close>

text \<open>
  The script decodes JSON text in two places and then reads fields of the result without
  any check of its shape: the body of a failed response (\<open>errorData.error\<close>) and the
  payload of a table item (\<open>tableData.columns\<close>, \<open>tableData.data\<close>). These values are
  modelled as they are at run time: untyped trees. \<open>Undefined\<close> is what reading an absent
  property gives; the decoder itself never returns it. The script never computes with a
  number of the decoded data, it only tests whether it is truthy and prints it; so a number
  is kept as the text the engine prints for it (\<open>3\<close>, \<open>-0.5\<close>, \<open>1e+21\<close>; zero and
  minus zero both print \<open>0\<close>).
\<close>

datatype jsval =
    Undefined
  | Null
  | Bool bool
  | Num string
  | Str string
  | Arr "jsval list"
  | Obj "(string \<times> jsval) list"

text \<open>What a \<open>catch\<close> clause can receive here; \<open>message_of\<close> is \<open>error.message\<close>.\<close>

datatype js_error =
    Error string
  | TypeError string
  | SyntaxError string

fun message_of :: "js_error \<Rightarrow> string" where
  "message_of (Error m) = m"
| "message_of (TypeError m) = m"
| "message_of (SyntaxError m) = m"

text \<open>
  \<open>v.k\<close> for a property \<open>k\<close> that no prototype defines (\<open>error\<close>, \<open>columns\<close>, \<open>data\<close>):
  reading it from \<open>null\<close> or \<open>undefined\<close> throws, an object gives its own property or
  \<open>undefined\<close>, every other value gives \<open>undefined\<close>. The message of the \<open>TypeError\<close> is
  the engine's, with the property name between single quotes.
\<close>

fun get_prop :: "jsval \<Rightarrow> string \<Rightarrow> js_error + jsval" where
  "get_prop Undefined k =
     Inl (TypeError (''Cannot read properties of undefined (reading '' @ [CHR 0x27] @ k
                       @ [CHR 0x27] @ '')''))"
| "get_prop Null k =
     Inl (TypeError (''Cannot read properties of null (reading '' @ [CHR 0x27] @ k
                       @ [CHR 0x27] @ '')''))"
| "get_prop (Obj kvs) k = Inr (case map_of kvs k of None \<Rightarrow> Undefined | Some v \<Rightarrow> v)"
| "get_prop v k = Inr Undefined"

text \<open>
  \<open>v.forEach(f)\<close>, where \<open>callee\<close> is the text of the expression \<open>v\<close> stands for: only an
  array has the method. The result is the list of elements the callback is applied to, in
  order.
\<close>

fun forEach_elems :: "string \<Rightarrow> jsval \<Rightarrow> js_error + jsval list" where
  "forEach_elems callee (Arr xs) = Inr xs"
| "forEach_elems callee Undefined =
     Inl (TypeError ''Cannot read properties of undefined (reading 'forEach')'')"
| "forEach_elems callee Null =
     Inl (TypeError ''Cannot read properties of null (reading 'forEach')'')"
| "forEach_elems callee v = Inl (TypeError (callee @ ''.forEach is not a function''))"

text \<open>The left operand of \<open>||\<close> is kept when it is truthy.\<close>

fun truthy :: "jsval \<Rightarrow> bool" where
  "truthy Undefined = False"
| "truthy Null = False"
| "truthy (Bool b) = b"
| "truthy (Num n) = (n \<noteq> ''0'')"
| "truthy (Str s) = (s \<noteq> [])"
| "truthy (Arr xs) = True"
| "truthy (Obj kvs) = True"

subsection \<open>Printing\<close>

text \<open>The decimal digits of a status code or of a number of files.\<close>

definition digit_char :: "nat \<Rightarrow> char" where
  "digit_char d = ''0123456789'' ! d"

function show_nat :: "nat \<Rightarrow> string" where
  "show_nat n = (if n < 10 then [digit_char n] else show_nat (n div 10) @ [digit_char (n mod 10)])"
  by pat_completeness auto
termination
  by (relation "measure (\<lambda>n. n)") auto

declare show_nat.simps [simp del]

text \<open>
  The conversion to a string that a template literal, the \<open>Error\<close> constructor and the
  DOM apply. Inside an array \<open>null\<close> and \<open>undefined\<close> print as nothing.
\<close>

fun to_string :: "jsval \<Rightarrow> string"
  and join_elems :: "jsval list \<Rightarrow> string" where
  "to_string Undefined = ''undefined''"
| "to_string Null = ''null''"
| "to_string (Bool b) = (if b then ''true'' else ''false'')"
| "to_string (Num n) = n"
| "to_string (Str s) = s"
| "to_string (Arr xs) = join_elems xs"
| "to_string (Obj kvs) = ''[object Object]''"
| "join_elems [] = []"
| "join_elems (x # xs) =
     (case x of Undefined \<Rightarrow> [] | Null \<Rightarrow> [] | _ \<Rightarrow> to_string x)
     @ (if xs = [] then [] else '','' @ join_elems xs)"

section \<open>The page\<close>

text \<open>
  An element has a tag, attributes, the tokens of its class list and children.
\<close>

datatype node =
    Text string
  | Element (tag: string) (attrs: "(string \<times> string) list")
      (classes: "string list") (children: "node list")

text \<open>
  Assigning \<open>textContent\<close> replaces the children by one text node, or by none when the
  string is empty. A value that is not a string is converted first, \<open>null\<close> and
  \<open>undefined\<close> to the empty string.
\<close>

definition set_text :: "string \<Rightarrow> node list" where
  "set_text s = (if s = [] then [] else [Text s])"

definition set_text_value :: "jsval \<Rightarrow> node list" where
  "set_text_value v =
     set_text (case v of Undefined \<Rightarrow> [] | Null \<Rightarrow> [] | _ \<Rightarrow> to_string v)"

text \<open>Reading \<open>textContent\<close>: the text of all descendants, in document order.\<close>

fun text_content :: "node \<Rightarrow> string" where
  "text_content (Text s) = s"
| "text_content (Element t a c ns) = concat (map text_content ns)"

fun is_element :: "node \<Rightarrow> bool" where
  "is_element (Text s) = False"
| "is_element (Element t a c ns) = True"

text \<open>\<open>classList.add\<close> on the token list.\<close>

definition classList_add :: "string \<Rightarrow> string list \<Rightarrow> string list" where
  "classList_add c cs = (if c \<in> set cs then cs else cs @ [c])"

text \<open>
  One item of the dataset, with the four fields of the service's contract, each a string.
  A dataset is a list of items, in the order the service sent them.
\<close>

record item =
  source_filename :: string
  type :: string
  title :: string
  content :: string

text \<open>
  The state the two handlers read and write: the module variable \<open>extractedData\<close> and the
  elements the script holds. \<open>download_hidden\<close> and \<open>previewTitle_hidden\<close> say whether
  the class list of the element has the token \<open>hidden\<close>; \<open>spinner_hidden\<close> likewise for
  the loading indicator. \<open>contentPreview\<close> is the list of children of that element.
\<close>

record page =
  extractedData :: "item list"
  message_text :: string
  message_classes :: "string list"
  extract_disabled :: bool
  download_disabled :: bool
  pdfFile_disabled :: bool
  spinner_hidden :: bool
  download_hidden :: bool
  previewTitle_hidden :: bool
  contentPreview :: "node list"

definition setMessage :: "string \<Rightarrow> string \<Rightarrow> page \<Rightarrow> page" where
  "setMessage txt ty s =
     (let c0 = [''text-center'', ''text-lg'', ''mb-4'', ''font-semibold''];
          c1 = (if ty = ''blue'' then classList_add ''text-blue-700'' c0 else c0);
          c2 = (if ty = ''green'' then classList_add ''text-green-600'' c1 else c1);
          c3 = (if ty = ''yellow'' then classList_add ''text-yellow-700'' c2 else c2);
          c4 = (if ty = ''red'' then classList_add ''text-red-600'' c3 else c3)
      in s\<lparr>message_text := txt, message_classes := c4\<rparr>)"

definition setLoading :: "bool \<Rightarrow> page \<Rightarrow> page" where
  "setLoading isLoading s =
     s\<lparr>extract_disabled := isLoading, download_disabled := isLoading,
       pdfFile_disabled := isLoading, spinner_hidden := (\<not> isLoading)\<rparr>"

definition initialMsgP :: "string list \<Rightarrow> node" where
  "initialMsgP cs =
     Element ''p'' [(''id'', ''initialMessage'')] cs
       [Text ''Extracted content will appear here.'']"

definition clearContentPreview :: "page \<Rightarrow> page" where
  "clearContentPreview s =
     s\<lparr>previewTitle_hidden := True,
       contentPreview := [initialMsgP [''text-gray-500'', ''text-center'']]\<rparr>"

section \<open>The renderer\<close>

text \<open>
  \<open>JSON.parse\<close> belongs to the platform, so the renderer takes it as the parameter
  \<open>parse\<close>: \<open>Inl m\<close> is a \<open>SyntaxError\<close> with message \<open>m\<close>, \<open>Inr v\<close> the decoded value.
\<close>

type_synonym json_parse = "string \<Rightarrow> string + jsval"

definition group_header :: "string \<Rightarrow> node" where
  "group_header currentSource =
     Element ''h3'' [] [''text-xl'', ''font-bold'', ''text-gray-700'', ''mt-6'', ''mb-2'']
       (set_text (''--- Content from: '' @ currentSource @ '' ---''))"

definition text_block :: "item \<Rightarrow> node" where
  "text_block it = Element ''p'' [] [''mb-2'', ''text-gray-800''] (set_text (content it))"

definition image_block :: "item \<Rightarrow> node" where
  "image_block it =
     Element ''div'' [] [''my-4'', ''text-center'']
       [Element ''h4'' [] [''text-md'', ''font-semibold'', ''text-gray-700'']
          (set_text (title it)),
        Element ''img'' [(''src'', content it), (''alt'', title it)]
          [''max-w-full'', ''h-auto'', ''mx-auto'', ''rounded-lg'', ''shadow-md'', ''mt-2'']
          []]"

definition th_cell :: "jsval \<Rightarrow> node" where
  "th_cell col = Element ''th'' [(''scope'', ''col'')] [''px-6'', ''py-3''] (set_text_value col)"

definition td_cell :: "jsval \<Rightarrow> node" where
  "td_cell cell = Element ''td'' [] [''px-6'', ''py-4''] (set_text_value cell)"

definition body_row :: "jsval list \<Rightarrow> node" where
  "body_row cells = Element ''tr'' [] [''hover:bg-gray-100''] (map td_cell cells)"

text \<open>
  The loop over \<open>tableData.data\<close>: a row that is not an array stops it with a
  \<open>TypeError\<close>.
\<close>

fun body_rows :: "jsval list \<Rightarrow> js_error + node list" where
  "body_rows [] = Inr []"
| "body_rows (row # rows) =
     (case forEach_elems ''row'' row of
        Inl e \<Rightarrow> Inl e
      | Inr cells \<Rightarrow>
          (case body_rows rows of
             Inl e \<Rightarrow> Inl e
           | Inr trs \<Rightarrow> Inr (body_row cells # trs)))"

definition table_element :: "jsval list \<Rightarrow> node list \<Rightarrow> node" where
  "table_element cols trs =
     Element ''table'' []
       [''w-full'', ''text-sm'', ''text-left'', ''text-gray-500'', ''rounded-lg'',
        ''shadow-md'', ''overflow-hidden'']
       [Element ''thead'' [] [''text-xs'', ''text-gray-700'', ''uppercase'', ''bg-gray-200'']
          [Element ''tr'' [] [] (map th_cell cols)],
        Element ''tbody'' [] [''bg-white'', ''divide-y'', ''divide-gray-200''] trs]"

definition table_container :: "item \<Rightarrow> node \<Rightarrow> node" where
  "table_container it tableElement =
     Element ''div'' [] [''my-4'', ''overflow-x-auto'']
       [Element ''h4'' [] [''text-md'', ''font-semibold'', ''text-gray-700'', ''text-center'', ''mb-2'']
          (set_text (title it)),
        tableElement]"

text \<open>
  The branch for a table item. The container joins the preview only in the last
  statement, so a failure anywhere before leaves no trace of the table.
\<close>

definition table_block :: "json_parse \<Rightarrow> item \<Rightarrow> js_error + node" where
  "table_block parse it =
     (case parse (content it) of
        Inl m \<Rightarrow> Inl (SyntaxError m)
      | Inr tableData \<Rightarrow>
     (case get_prop tableData ''columns'' of
        Inl e \<Rightarrow> Inl e
      | Inr columns \<Rightarrow>
     (case forEach_elems ''tableData.columns'' columns of
        Inl e \<Rightarrow> Inl e
      | Inr cols \<Rightarrow>
     (case get_prop tableData ''data'' of
        Inl e \<Rightarrow> Inl e
      | Inr dat \<Rightarrow>
     (case forEach_elems ''tableData.data'' dat of
        Inl e \<Rightarrow> Inl e
      | Inr rows \<Rightarrow>
     (case body_rows rows of
        Inl e \<Rightarrow> Inl e
      | Inr trs \<Rightarrow> Inr (table_container it (table_element cols trs))))))))"

text \<open>The dispatch on \<open>item.type\<close>: the nodes it appends to the preview, or the error.\<close>

definition type_dispatch :: "json_parse \<Rightarrow> item \<Rightarrow> js_error + node list" where
  "type_dispatch parse it =
     (if type it = ''text'' then Inr [text_block it]
      else if type it = ''image'' then Inr [image_block it]
      else if type it = ''table'' then
        (case table_block parse it of Inl e \<Rightarrow> Inl e | Inr n \<Rightarrow> Inr [n])
      else Inr [])"

text \<open>
  The header step of the callback: the tracked source after it, and the header it
  appends (none when the source is the tracked one).
\<close>

definition header_step :: "string \<Rightarrow> item \<Rightarrow> string \<times> node list" where
  "header_step currentSource it =
     (if currentSource \<noteq> source_filename it
      then (source_filename it, [group_header (source_filename it)])
      else (currentSource, []))"

text \<open>
  \<open>data.forEach\<close> with its callback, threading \<open>currentSource\<close> and the children of
  the preview. An error ends the loop; what was appended before stays.
\<close>

fun forEach_items ::
  "json_parse \<Rightarrow> item list \<Rightarrow> string \<Rightarrow> node list \<Rightarrow> js_error option \<times> node list" where
  "forEach_items parse [] currentSource kids = (None, kids)"
| "forEach_items parse (it # its) currentSource kids =
     (case header_step currentSource it of
        (cur, hs) \<Rightarrow>
          (case type_dispatch parse it of
             Inl e \<Rightarrow> (Some e, kids @ hs)
           | Inr ns \<Rightarrow> forEach_items parse its cur (kids @ hs @ ns)))"

text \<open>
  \<open>getElementById("initialMessage")\<close> followed by \<open>classList.add("hidden")\<close>: the first
  child of the preview with that id gets the token (the placeholder that
  \<open>clearContentPreview\<close> has just created is the element with that id).
\<close>

fun hide_initialMessage :: "node list \<Rightarrow> node list" where
  "hide_initialMessage [] = []"
| "hide_initialMessage (Text s # ns) = Text s # hide_initialMessage ns"
| "hide_initialMessage (Element t a c ks # ns) =
     (if map_of a ''id'' = Some ''initialMessage''
      then Element t a (classList_add ''hidden'' c) ks # ns
      else Element t a c ks # hide_initialMessage ns)"

definition displayContent :: "json_parse \<Rightarrow> item list \<Rightarrow> page \<Rightarrow> js_error option \<times> page" where
  "displayContent parse data s =
     (let s1 = clearContentPreview s;
          s2 = s1\<lparr>previewTitle_hidden := False\<rparr>;
          s3 = s2\<lparr>contentPreview := hide_initialMessage (contentPreview s2)\<rparr>
      in case forEach_items parse data '''' (contentPreview s3) of
           (err, kids) \<Rightarrow> (err, s3\<lparr>contentPreview := kids\<rparr>))"

section \<open>The two click handlers\<close>

text \<open>
  What \<open>await fetch(...)\<close> gives is an input of the model. \<open>Rejected m\<close>: the promise
  rejects (no response; a \<open>TypeError\<close> with message \<open>m\<close>). \<open>NotOk status body\<close>: a
  response whose \<open>ok\<close> is false, \<open>body\<close> being what \<open>response.json()\<close> gives (\<open>Inl m\<close>:
  it rejects with a \<open>SyntaxError\<close>). \<open>Ok status payload\<close>: a response whose \<open>ok\<close> is
  true. For the upload the payload is what \<open>response.json()\<close> gives, read through
  \<open>result.extracted_data\<close>: a list of items, as the service's contract has it (a body
  without that field, or with one that is not a list of items, is outside the model). For
  the generation it is what \<open>response.blob()\<close> gives (\<open>Inl m\<close>: it rejects).
\<close>

datatype 'b fetch_outcome =
    Rejected string
  | NotOk nat "string + jsval"
  | Ok nat 'b

type_synonym pdf = string
type_synonym blob = string

datatype request =
    UploadPdfs "pdf list"
  | GeneratePdf "item list"

text \<open>
  What a handler does outside the page state, in order. \<open>SaveFile name b\<close> stands for the
  statements that hand the blob to the browser: an object URL, an invisible anchor with the
  \<open>download\<close> name appended to the document, its click, and the revocation of the URL.
\<close>

datatype effect =
    Fetch request
  | SaveFile string blob
  | ConsoleError js_error

fun is_fetch :: "effect \<Rightarrow> bool" where
  "is_fetch (Fetch r) = True"
| "is_fetch e = False"

text \<open>
  The error both handlers throw for a response that is not ok:
  \<open>throw new Error(errorData.error || `HTTP error! status: ${response.status}`)\<close>
  after \<open>errorData = await response.json()\<close>.
\<close>

definition not_ok_error :: "nat \<Rightarrow> string + jsval \<Rightarrow> js_error" where
  "not_ok_error status body =
     (case body of
        Inl m \<Rightarrow> SyntaxError m
      | Inr errorData \<Rightarrow>
          (case get_prop errorData ''error'' of
             Inl e \<Rightarrow> e
           | Inr v \<Rightarrow>
               Error (if truthy v then to_string v
                      else ''HTTP error! status: '' @ show_nat status)))"

text \<open>
  The \<open>try\<close> block of the extract handler, after the upload request has been sent: the
  error it throws if any, the page, and the requests it sends.
\<close>

definition extract_try ::
  "json_parse \<Rightarrow> (string + item list) fetch_outcome \<Rightarrow> (string + blob) fetch_outcome \<Rightarrow> page
     \<Rightarrow> js_error option \<times> page \<times> effect list" where
  "extract_try parse upload generate s =
     (case upload of
        Rejected m \<Rightarrow> (Some (TypeError m), s, [])
      | NotOk status body \<Rightarrow> (Some (not_ok_error status body), s, [])
      | Ok status body \<Rightarrow>
          (case body of
             Inl m \<Rightarrow> (Some (SyntaxError m), s, [])
           | Inr extracted_data \<Rightarrow>
               (let s1 = s\<lparr>extractedData := extracted_data\<rparr> in
                if length (extractedData s1) > 0 then
                  (case displayContent parse (extractedData s1) s1 of
                     (Some e, s2) \<Rightarrow> (Some e, s2, [])
                   | (None, s2) \<Rightarrow>
                       (let s3 = setMessage
                              ''Content extracted successfully! You can now download the PDF.''
                              ''green'' s2;
                            sent = [Fetch (GeneratePdf (extractedData s3))]
                        in case generate of
                             Rejected m \<Rightarrow> (Some (TypeError m), s3, sent)
                           | NotOk status' body' \<Rightarrow> (None, s3\<lparr>download_hidden := False\<rparr>, sent)
                           | Ok status' b \<Rightarrow> (None, s3\<lparr>download_hidden := False\<rparr>, sent)))
                else
                  (None,
                   (setMessage ''No content could be extracted from the files.'' ''yellow'' s1)
                     \<lparr>download_hidden := True\<rparr>,
                   []))))"

definition extract_click ::
  "json_parse \<Rightarrow> pdf list \<Rightarrow> (string + item list) fetch_outcome \<Rightarrow> (string + blob) fetch_outcome
     \<Rightarrow> page \<Rightarrow> page \<times> effect list" where
  "extract_click parse files upload generate s =
     (if length files = 0 then
        (setMessage ''Please select one or more PDF files first.'' ''yellow'' s, [])
      else
        (let s1 = setMessage (''Processing '' @ show_nat (length files) @ '' PDF file(s)...'')
                    ''blue'' s;
             s2 = setLoading True s1;
             s3 = s2\<lparr>download_hidden := True\<rparr>;
             s4 = clearContentPreview s3
         in case extract_try parse upload generate s4 of
              (None, s5, sent) \<Rightarrow>
                (setLoading False s5, Fetch (UploadPdfs files) # sent)
            | (Some e, s5, sent) \<Rightarrow>
                (setLoading False
                   (setMessage
                      (''An error occurred: '' @ message_of e
                         @ ''. Please check the server console for details.'')
                      ''red'' s5),
                 Fetch (UploadPdfs files) # sent @ [ConsoleError e])))"

definition download_try ::
  "(string + blob) fetch_outcome \<Rightarrow> page \<Rightarrow> js_error option \<times> page \<times> effect list" where
  "download_try generate s =
     (case generate of
        Rejected m \<Rightarrow> (Some (TypeError m), s, [])
      | NotOk status body \<Rightarrow> (Some (not_ok_error status body), s, [])
      | Ok status body \<Rightarrow>
          (case body of
             Inl m \<Rightarrow> (Some (TypeError m), s, [])
           | Inr b \<Rightarrow>
               (None,
                setMessage ''Download started for extracted_content.pdf.'' ''green'' s,
                [SaveFile ''extracted_content.pdf'' b])))"

definition download_click :: "(string + blob) fetch_outcome \<Rightarrow> page \<Rightarrow> page \<times> effect list" where
  "download_click generate s =
     (if length (extractedData s) = 0 then
        (setMessage ''No content to download. Please extract first.'' ''yellow'' s, [])
      else
        (let s1 = setMessage ''Generating PDF for download...'' ''blue'' s;
             s2 = setLoading True s1
         in case download_try generate s2 of
              (None, s3, effs) \<Rightarrow>
                (setLoading False s3, Fetch (GeneratePdf (extractedData s2)) # effs)
            | (Some e, s3, effs) \<Rightarrow>
                (setLoading False
                   (setMessage (''An error occurred during download: '' @ message_of e @ ''.'')
                      ''red'' s3),
                 Fetch (GeneratePdf (extractedData s2)) # effs @ [ConsoleError e])))"

text \<open>
  While a request is in flight both buttons and the file input are disabled, so no
  second handler starts before the first has ended: a run of the page is a sequence of
  clicks, each handled to its end. A click carries what the network will answer to the
  requests its handler sends.
\<close>

datatype click =
    ExtractClick "pdf list" "(string + item list) fetch_outcome" "(string + blob) fetch_outcome"
  | DownloadClick "(string + blob) fetch_outcome"

fun handle :: "json_parse \<Rightarrow> click \<Rightarrow> page \<Rightarrow> page \<times> effect list" where
  "handle parse (ExtractClick files upload generate) s = extract_click parse files upload generate s"
| "handle parse (DownloadClick generate) s = download_click generate s"

fun run :: "json_parse \<Rightarrow> click list \<Rightarrow> page \<Rightarrow> page" where
  "run parse [] s = s"
| "run parse (c # cs) s = run parse cs (fst (handle parse c s))"

section \<open>The vocabulary of the properties\<close>

text \<open>The item types the dispatch has a branch for.\<close>

definition recognized :: "item \<Rightarrow> bool" where
  "recognized it = (type it = ''text'' \<or> type it = ''image'' \<or> type it = ''table'')"

text \<open>
  A group header is an \<open>h3\<close> child of the preview; an item block is a \<open>p\<close> or \<open>div\<close>
  child without an id (the placeholder is a \<open>p\<close> with the id \<open>initialMessage\<close>).
\<close>

fun is_group_header :: "node \<Rightarrow> bool" where
  "is_group_header (Text s) = False"
| "is_group_header (Element t a c ns) = (t = ''h3'')"

fun is_item_block :: "node \<Rightarrow> bool" where
  "is_item_block (Text s) = False"
| "is_item_block (Element t a c ns) = ((t = ''p'' \<or> t = ''div'') \<and> map_of a ''id'' = None)"

text \<open>
  The number of maximal runs of equal adjacent entries, as the specification counts the
  groups of a dataset.
\<close>

fun runs :: "'a list \<Rightarrow> nat" where
  "runs [] = 0"
| "runs [x] = 1"
| "runs (x # y # xs) = (if x = y then runs (y # xs) else Suc (runs (y # xs)))"

text \<open>The controls are enabled and the loading indicator is hidden.\<close>

definition loading_cleared :: "page \<Rightarrow> bool" where
  "loading_cleared s =
     (\<not> extract_disabled s \<and> \<not> download_disabled s \<and> \<not> pdfFile_disabled s
      \<and> spinner_hidden s)"

text \<open>
  What a call of \<open>displayContent\<close> on a dataset leaves, whatever the page was before: the
  error it throws if any, and the children of the preview.
\<close>

definition render_error :: "json_parse \<Rightarrow> item list \<Rightarrow> js_error option" where
  "render_error parse data = fst (forEach_items parse data '''' [])"

definition preview_of :: "json_parse \<Rightarrow> item list \<Rightarrow> node list" where
  "preview_of parse data =
     initialMsgP [''text-gray-500'', ''text-center'', ''hidden'']
       # snd (forEach_items parse data '''' [])"

text \<open>The preview shows a dataset: it holds the complete rendering of it, under its title.\<close>

definition shows_dataset :: "json_parse \<Rightarrow> item list \<Rightarrow> page \<Rightarrow> bool" where
  "shows_dataset parse data s =
     (render_error parse data = None \<and> contentPreview s = preview_of parse data
      \<and> \<not> previewTitle_hidden s)"

text \<open>A request resolves when it gets a response, whatever its status.\<close>

fun resolves :: "'b fetch_outcome \<Rightarrow> bool" where
  "resolves (Rejected m) = False"
| "resolves (NotOk status body) = True"
| "resolves (Ok status b) = True"

subsection \<open>Sample data\<close>

text \<open>
  A decoder for the examples: it agrees with \<open>JSON.parse\<close> on the two payloads the
  examples use, the table of the specification's scenario and a text that is not JSON.
\<close>

definition sample_parse :: json_parse where
  \<open>sample_parse s =
     (if s = ''{"columns":["X","Y"],"data":[[1,2],[3,4]]}''
      then Inr (Obj [(''columns'', Arr [Str ''X'', Str ''Y'']),
                     (''data'', Arr [Arr [Num ''1'', Num ''2''], Arr [Num ''3'', Num ''4'']])])
      else Inl ''Unexpected token 'o', "oops" is not valid JSON'')\<close>

definition sample_table :: item where
  \<open>sample_table =
     \<lparr>source_filename = ''a.pdf'', type = ''table'', title = ''Table 1'',
      content = ''{"columns":["X","Y"],"data":[[1,2],[3,4]]}''\<rparr>\<close>

definition broken_table :: item where
  "broken_table =
     \<lparr>source_filename = ''a.pdf'', type = ''table'', title = ''Table 2'',
      content = ''oops''\<rparr>"

definition text_item :: "string \<Rightarrow> string \<Rightarrow> item" where
  "text_item name txt = \<lparr>source_filename = name, type = ''text'', title = [], content = txt\<rparr>"

definition audio_item :: item where
  "audio_item =
     \<lparr>source_filename = ''b.pdf'', type = ''audio'', title = ''Track'', content = ''data:audio''\<rparr>"

text \<open>
  A page as it may be when the script starts: no dataset, nothing disabled, the download
  button hidden, the placeholder in the preview.
\<close>

definition page_at_load :: page where
  "page_at_load =
     \<lparr>extractedData = [], message_text = [], message_classes = [],
      extract_disabled = False, download_disabled = False, pdfFile_disabled = False,
      spinner_hidden = True, download_hidden = True, previewTitle_hidden = True,
      contentPreview = [initialMsgP [''text-gray-500'', ''text-center'']]\<rparr>"

text \<open>
  A click the page offers to its user: the control is enabled, and the download button is
  not hidden.
\<close>

fun offered :: "click \<Rightarrow> page \<Rightarrow> bool" where
  "offered (ExtractClick files upload generate) s = (\<not> extract_disabled s)"
| "offered (DownloadClick generate) s = (\<not> download_disabled s \<and> \<not> download_hidden s)"

fun is_download :: "click \<Rightarrow> bool" where
  "is_download (ExtractClick files upload generate) = False"
| "is_download (DownloadClick generate) = True"

text \<open>
  The relation between the download button, the retained dataset and the preview that
  every click keeps: when the button is visible and a dataset is retained, the preview
  shows that dataset.
\<close>

definition agrees :: "json_parse \<Rightarrow> page \<Rightarrow> bool" where
  "agrees parse s =
     (download_hidden s \<or> extractedData s = [] \<or> shows_dataset parse (extractedData s) s)"

text \<open>The dataset of the specification's first scenario.\<close>

definition scenario :: "item list" where
  "scenario =
     [text_item ''a.pdf'' ''Hello'', text_item ''a.pdf'' ''World'', text_item ''b.pdf'' ''Foo'']"

subsection \<open>The layout the specification describes\<close>

text \<open>
  The specification describes the preview by the dataset alone, without the loop: every
  item is compared with the item before it, the first one with the empty string
  (\<open>with_previous\<close>); where the \<open>source_filename\<close> differs, the header of the item's source
  comes first (\<open>header_for\<close>, the \<open>h3\<close> element written out), and then what the dispatch
  gives for the item (\<open>block_of\<close>). \<open>spec_layout\<close> is that sequence of nodes.
\<close>

definition with_previous :: "item list \<Rightarrow> (string \<times> item) list" where
  "with_previous ds = zip ('''' # map source_filename ds) ds"

definition header_for :: "string \<Rightarrow> node" where
  "header_for name =
     Element ''h3'' [] [''text-xl'', ''font-bold'', ''text-gray-700'', ''mt-6'', ''mb-2'']
       [Text (''--- Content from: '' @ name @ '' ---'')]"

definition block_of :: "json_parse \<Rightarrow> item \<Rightarrow> node list" where
  "block_of parse it = (case type_dispatch parse it of Inl e \<Rightarrow> [] | Inr ns \<Rightarrow> ns)"

definition spec_layout :: "json_parse \<Rightarrow> item list \<Rightarrow> node list" where
  "spec_layout parse ds =
     concat (map (\<lambda>(previous, it).
                    (if source_filename it \<noteq> previous then [header_for (source_filename it)]
                     else [])
                    @ block_of parse it)
               (with_previous ds))"

text \<open>
  The dispatch on an item ends without error. Only a table item can make it throw: when
  its payload does not decode, or does not have the arrays the loops go through.
\<close>

definition renders :: "json_parse \<Rightarrow> item \<Rightarrow> bool" where
  "renders parse it = (case type_dispatch parse it of Inl e \<Rightarrow> False | Inr ns \<Rightarrow> True)"

text \<open>
  The source the loop tracks when it has gone through the items \<open>pre\<close>: that of the last
  of them, the empty string when there is none.
\<close>

definition source_after :: "item list \<Rightarrow> string" where
  "source_after pre = (if pre = [] then '''' else source_filename (last pre))"

section \<open>Auxiliary facts\<close>

text \<open>The class list \<open>setMessage\<close> leaves for each of the colours the handlers pass.\<close>

lemma setMessage_yellow:
  "setMessage txt ''yellow'' s =
     s\<lparr>message_text := txt,
       message_classes :=
         [''text-center'', ''text-lg'', ''mb-4'', ''font-semibold'', ''text-yellow-700'']\<rparr>"
  by (simp add: setMessage_def classList_add_def)



lemma setMessage_blue:
  "setMessage txt ''blue'' s =
     s\<lparr>message_text := txt,
       message_classes :=
         [''text-center'', ''text-lg'', ''mb-4'', ''font-semibold'', ''text-blue-700'']\<rparr>"
  by (simp add: setMessage_def classList_add_def)

lemma setLoading_False_cleared: "loading_cleared (setLoading False s)"
  by (simp add: loading_cleared_def setLoading_def)

text \<open>
  The loop only appends: its error does not depend on the children it starts from, and
  what it leaves is those children followed by what it appends to an empty preview.
\<close>

lemma forEach_items_kids:
  "forEach_items parse ds cur kids =
     (fst (forEach_items parse ds cur []), kids @ snd (forEach_items parse ds cur []))"
proof (induction ds arbitrary: cur kids)
  case Nil
  show ?case by simp
next
  case (Cons it its)
  obtain c hs where h: "header_step cur it = (c, hs)"
    by (cases "header_step cur it")
  show ?case
  proof (cases "type_dispatch parse it")
    case (Inl e)
    with h show ?thesis by simp
  next
    case (Inr ns)
    have a: "forEach_items parse its c (kids @ hs @ ns) =
        (fst (forEach_items parse its c []),
         (kids @ hs @ ns) @ snd (forEach_items parse its c []))"
      by (rule Cons.IH)
    have b: "forEach_items parse its c (hs @ ns) =
        (fst (forEach_items parse its c []), (hs @ ns) @ snd (forEach_items parse its c []))"
      by (rule Cons.IH)
    from h Inr a b show ?thesis by simp
  qed
qed

text \<open>\<open>displayContent\<close> rebuilds the preview from nothing: the page before has no part in it.\<close>

lemma displayContent_eq:
  "displayContent parse ds s =
     (render_error parse ds,
      s\<lparr>previewTitle_hidden := False, contentPreview := preview_of parse ds\<rparr>)"
proof -
  have "forEach_items parse ds ''''
          [initialMsgP [''text-gray-500'', ''text-center'', ''hidden'']] =
      (render_error parse ds, preview_of parse ds)"
    using forEach_items_kids
      [of parse ds "''''" "[initialMsgP [''text-gray-500'', ''text-center'', ''hidden'']]"]
    by (simp add: render_error_def preview_of_def)
  then show ?thesis
    by (simp add: displayContent_def clearContentPreview_def initialMsgP_def classList_add_def)
qed

text \<open>The \<open>try\<close> block of the extract handler on a dataset that renders without error.\<close>

lemma extract_try_rendered:
  assumes "ds \<noteq> []" and "render_error parse ds = None"
  shows "extract_try parse (Ok status (Inr ds)) generate s =
     (case generate of
        Rejected m \<Rightarrow> Some (TypeError m)
      | NotOk st b \<Rightarrow> None
      | Ok st b \<Rightarrow> None,
      (setMessage ''Content extracted successfully! You can now download the PDF.'' ''green''
         (s\<lparr>extractedData := ds, previewTitle_hidden := False,
            contentPreview := preview_of parse ds\<rparr>))
        \<lparr>download_hidden := (if resolves generate then False else download_hidden s)\<rparr>,
      [Fetch (GeneratePdf ds)])"
  using assms
  by (cases generate) (simp_all add: extract_try_def displayContent_eq Let_def setMessage_def)

text \<open>
  The download handler writes the message and the loading state only.
\<close>

lemma download_click_frame:
  "extractedData (fst (download_click generate s)) = extractedData s
   \<and> download_hidden (fst (download_click generate s)) = download_hidden s
   \<and> contentPreview (fst (download_click generate s)) = contentPreview s
   \<and> previewTitle_hidden (fst (download_click generate s)) = previewTitle_hidden s"
  by (simp add: download_click_def download_try_def Let_def setMessage_def setLoading_def
      split: fetch_outcome.splits sum.splits)

section \<open>Properties of the two handlers\<close>

text \<open>
  C6. A click on the extract button with no file selected sets the message asking to
  select files, in the warning colour, sends no request, and changes nothing else of the
  page, whatever the network would have answered.
\<close>

theorem extract_click_no_files:
  "extract_click parse [] upload generate s =
     (s\<lparr>message_text := ''Please select one or more PDF files first.'',
        message_classes :=
          [''text-center'', ''text-lg'', ''mb-4'', ''font-semibold'', ''text-yellow-700'']\<rparr>,
      [])"
  by (simp add: extract_click_def setMessage_yellow)

theorem extract_click_no_files_witness:
  "fst (extract_click sample_parse [] (Rejected ''Failed to fetch'') (Ok 200 (Inr ''%PDF''))
          page_at_load) =
     page_at_load\<lparr>message_text := ''Please select one or more PDF files first.'',
        message_classes :=
          [''text-center'', ''text-lg'', ''mb-4'', ''font-semibold'', ''text-yellow-700'']\<rparr>
   \<and> filter is_fetch
         (snd (extract_click sample_parse [] (Rejected ''Failed to fetch'') (Ok 200 (Inr ''%PDF''))
                 page_at_load)) = []"
  using extract_click_no_files
    [of sample_parse "Rejected ''Failed to fetch''" "Ok 200 (Inr ''%PDF'')" page_at_load]
  by simp

text \<open>
  C4. Whenever the extract handler gets past the check of the file selection, and
  whenever the download handler gets past the check of the retained dataset, the page it
  leaves has the three controls enabled and the loading indicator hidden: for every
  outcome of the requests (rejected, answered with an error status, answered with
  success) and also when rendering throws.
\<close>

theorem loading_always_cleared:
  "(files \<noteq> [] \<longrightarrow> loading_cleared (fst (extract_click parse files upload generate s)))
   \<and> (extractedData s' \<noteq> [] \<longrightarrow> loading_cleared (fst (download_click generate' s')))"
  by (auto simp: extract_click_def download_click_def Let_def setLoading_False_cleared
      split: prod.splits option.splits)

theorem loading_always_cleared_witness:
  "[''a.pdf''] \<noteq> []
   \<and> loading_cleared
       (fst (extract_click sample_parse [''a.pdf''] (Ok 200 (Inr [broken_table]))
               (Ok 200 (Inr ''%PDF'')) page_at_load))
   \<and> extractedData (page_at_load\<lparr>extractedData := [sample_table]\<rparr>) \<noteq> []
   \<and> loading_cleared
       (fst (download_click (Rejected ''Failed to fetch'')
               (page_at_load\<lparr>extractedData := [sample_table]\<rparr>)))"
  using loading_always_cleared
    [where files = "[''a.pdf'']" and parse = sample_parse
       and upload = "Ok 200 (Inr [broken_table])" and generate = "Ok 200 (Inr ''%PDF'')"
       and s = page_at_load and s' = "page_at_load\<lparr>extractedData := [sample_table]\<rparr>"
       and generate' = "Rejected ''Failed to fetch''"]
  by simp


text \<open>
  C9. A click on the download button while no dataset is retained sets the message that
  there is nothing to download and sends no request. And whatever the generation request
  gives, in particular when it is rejected or answered with an error status, the handler
  leaves the retained dataset, the preview and the visibility of the download button as
  they were: the same dataset can be requested again.
\<close>

theorem download_click_keeps_dataset:
  "(extractedData s = [] \<longrightarrow>
      download_click generate s =
        (s\<lparr>message_text := ''No content to download. Please extract first.'',
           message_classes :=
             [''text-center'', ''text-lg'', ''mb-4'', ''font-semibold'', ''text-yellow-700'']\<rparr>,
         []))
   \<and> extractedData (fst (download_click generate s)) = extractedData s
   \<and> download_hidden (fst (download_click generate s)) = download_hidden s
   \<and> contentPreview (fst (download_click generate s)) = contentPreview s"
  using download_click_frame [of generate s]
  by (simp add: download_click_def setMessage_yellow)

theorem download_click_keeps_dataset_witness:
  "extractedData page_at_load = []
   \<and> snd (download_click (Ok 200 (Inr ''%PDF'')) page_at_load) = []
   \<and> message_text (fst (download_click (Ok 200 (Inr ''%PDF'')) page_at_load)) =
       ''No content to download. Please extract first.''
   \<and> extractedData
        (fst (download_click (NotOk 500 (Inr (Obj [(''error'', Str ''disk full'')])))
                (page_at_load\<lparr>extractedData := [sample_table]\<rparr>))) = [sample_table]
   \<and> extractedData
        (fst (download_click (Rejected ''Failed to fetch'')
                (page_at_load\<lparr>extractedData := [sample_table]\<rparr>))) = [sample_table]"
  using download_click_keeps_dataset [where s = page_at_load and generate = "Ok 200 (Inr ''%PDF'')"]
    download_click_keeps_dataset
      [where s = "page_at_load\<lparr>extractedData := [sample_table]\<rparr>"
         and generate = "NotOk 500 (Inr (Obj [(''error'', Str ''disk full'')]))"]
    download_click_keeps_dataset
      [where s = "page_at_load\<lparr>extractedData := [sample_table]\<rparr>"
         and generate = "Rejected ''Failed to fetch''"]
  by (simp add: page_at_load_def)

lemma render_error_hello: "render_error sample_parse [text_item ''a.pdf'' ''Hello''] = None"
  by (simp add: render_error_def header_step_def type_dispatch_def text_item_def)

text \<open>
  C10. After an upload answered with a non-empty dataset that renders without error, the
  handler sends the generation request with that dataset and never looks at the status of
  the answer: whenever the request resolves, with an error status as well, the download
  button is made visible and the success message stays. When the request is rejected,
  the handler's \<open>catch\<close> runs: the message is the error message and the download button
  stays hidden, although the dataset is stored and the preview shows it.
\<close>

theorem proactive_generate_status_ignored:
  assumes "files \<noteq> []" and "ds \<noteq> []" and "render_error parse ds = None"
  shows "(resolves generate \<longrightarrow>
            \<not> download_hidden (fst (extract_click parse files (Ok status (Inr ds)) generate s))
            \<and> message_text (fst (extract_click parse files (Ok status (Inr ds)) generate s)) =
                ''Content extracted successfully! You can now download the PDF.'')
         \<and> (let s' = fst (extract_click parse files (Ok status (Inr ds)) (Rejected m) s)
            in message_text s' =
                 ''An error occurred: '' @ m @ ''. Please check the server console for details.''
               \<and> download_hidden s' \<and> extractedData s' = ds \<and> shows_dataset parse ds s')
         \<and> filter is_fetch (snd (extract_click parse files (Ok status (Inr ds)) generate s)) =
             [Fetch (UploadPdfs files), Fetch (GeneratePdf ds)]"
  using assms
  by (cases generate)
     (simp_all add: extract_click_def extract_try_rendered Let_def setMessage_def setLoading_def
        clearContentPreview_def shows_dataset_def)

theorem proactive_generate_status_ignored_witness:
  "[''a.pdf''] \<noteq> [] \<and> [text_item ''a.pdf'' ''Hello''] \<noteq> []
   \<and> render_error sample_parse [text_item ''a.pdf'' ''Hello''] = None
   \<and> resolves (NotOk 500 (Inl ''Unexpected end of JSON input'') :: (string + blob) fetch_outcome)
   \<and> \<not> download_hidden
         (fst (extract_click sample_parse [''a.pdf''] (Ok 200 (Inr [text_item ''a.pdf'' ''Hello'']))
                 (NotOk 500 (Inl ''Unexpected end of JSON input'')) page_at_load))
   \<and> download_hidden
         (fst (extract_click sample_parse [''a.pdf''] (Ok 200 (Inr [text_item ''a.pdf'' ''Hello'']))
                 (Rejected ''Failed to fetch'') page_at_load))
   \<and> message_text
         (fst (extract_click sample_parse [''a.pdf''] (Ok 200 (Inr [text_item ''a.pdf'' ''Hello'']))
                 (Rejected ''Failed to fetch'') page_at_load)) =
       ''An error occurred: Failed to fetch. Please check the server console for details.''"
  using proactive_generate_status_ignored
    [where files = "[''a.pdf'']" and ds = "[text_item ''a.pdf'' ''Hello'']"
       and parse = sample_parse and generate = "NotOk 500 (Inl ''Unexpected end of JSON input'')"
       and status = 200 and s = page_at_load and m = "''Failed to fetch''"]
    render_error_hello
  by (simp add: Let_def)





section \<open>The retained dataset and the preview\<close>

text \<open>
  The \<open>try\<close> block of the extract handler makes the download button visible on one path
  only: a non-empty dataset, rendered without error, and a generation request that
  resolves.
\<close>

lemma extract_try_hidden:
  assumes "download_hidden s"
  shows "download_hidden (fst (snd (extract_try parse upload generate s)))
         \<or> (\<exists>status ds. upload = Ok status (Inr ds) \<and> ds \<noteq> []
              \<and> render_error parse ds = None \<and> resolves generate)"
proof (cases upload)
  case (Rejected m)
  with assms show ?thesis by (simp add: extract_try_def)
next
  case (NotOk status body)
  with assms show ?thesis by (simp add: extract_try_def)
next
  case (Ok status body)
  show ?thesis
  proof (cases body)
    case (Inl m)
    with Ok assms show ?thesis by (simp add: extract_try_def)
  next
    case (Inr ds)
    show ?thesis
    proof (cases "ds = []")
      case True
      with Ok Inr show ?thesis by (simp add: extract_try_def setMessage_def Let_def)
    next
      case False
      show ?thesis
      proof (cases "render_error parse ds")
        case None
        with False Ok Inr assms show ?thesis
          by (cases generate) (simp_all add: extract_try_rendered setMessage_def Let_def)
      next
        case (Some e)
        with False Ok Inr assms show ?thesis
          by (simp add: extract_try_def displayContent_eq Let_def)
      qed
    qed
  qed
qed

lemma extract_click_agrees:
  assumes "agrees parse s"
  shows "agrees parse (fst (extract_click parse files upload generate s))"
proof (cases "files = []")
  case True
  with assms show ?thesis
    by (simp add: extract_click_def setMessage_def agrees_def shows_dataset_def Let_def)
next
  case False
  let ?s4 = "clearContentPreview
      ((setLoading True
         (setMessage (''Processing '' @ show_nat (length files) @ '' PDF file(s)...'') ''blue'' s))
        \<lparr>download_hidden := True\<rparr>)"
  let ?end = "fst (extract_click parse files upload generate s)"
  have hid: "download_hidden ?s4"
    by (simp add: clearContentPreview_def)
  obtain err s5 sent where t: "extract_try parse upload generate ?s4 = (err, s5, sent)"
    by (cases "extract_try parse upload generate ?s4")
  have final: "download_hidden ?end = download_hidden s5
      \<and> extractedData ?end = extractedData s5
      \<and> contentPreview ?end = contentPreview s5
      \<and> previewTitle_hidden ?end = previewTitle_hidden s5"
    using False t
    by (cases err) (simp_all add: extract_click_def Let_def setLoading_def setMessage_def)
  from extract_try_hidden [OF hid, of parse upload generate]
  show ?thesis
  proof
    assume "download_hidden (fst (snd (extract_try parse upload generate ?s4)))"
    with t final show ?thesis by (simp add: agrees_def)
  next
    assume "\<exists>status ds. upload = Ok status (Inr ds) \<and> ds \<noteq> []
              \<and> render_error parse ds = None \<and> resolves generate"
    then obtain status ds where u: "upload = Ok status (Inr ds)" and ne: "ds \<noteq> []"
      and r: "render_error parse ds = None"
      by blast
    from t u ne r have "extractedData s5 = ds \<and> contentPreview s5 = preview_of parse ds
        \<and> \<not> previewTitle_hidden s5"
      by (auto simp: extract_try_rendered setMessage_def)
    with final r show ?thesis
      by (simp add: agrees_def shows_dataset_def)
  qed
qed

lemma download_click_agrees:
  "agrees parse s \<Longrightarrow> agrees parse (fst (download_click generate s))"
  using download_click_frame [of generate s]
  by (auto simp: agrees_def shows_dataset_def)

lemma handle_agrees: "agrees parse s \<Longrightarrow> agrees parse (fst (handle parse c s))"
  by (cases c) (simp_all add: extract_click_agrees download_click_agrees)

lemma run_agrees: "agrees parse s \<Longrightarrow> agrees parse (run parse clicks s)"
  by (induction clicks arbitrary: s) (simp_all add: handle_agrees)

text \<open>Where a generation request comes from, in each handler.\<close>

lemma extract_try_sent:
  assumes "Fetch (GeneratePdf d) \<in> set (snd (snd (extract_try parse upload generate s)))"
  shows "\<exists>status. upload = Ok status (Inr d) \<and> d \<noteq> [] \<and> render_error parse d = None"
proof (cases upload)
  case (Rejected m)
  with assms show ?thesis by (simp add: extract_try_def)
next
  case (NotOk status body)
  with assms show ?thesis by (simp add: extract_try_def)
next
  case (Ok status body)
  show ?thesis
  proof (cases body)
    case (Inl m)
    with Ok assms show ?thesis by (simp add: extract_try_def)
  next
    case (Inr ds)
    show ?thesis
    proof (cases "ds = []")
      case True
      with Ok Inr assms show ?thesis by (simp add: extract_try_def Let_def)
    next
      case False
      show ?thesis
      proof (cases "render_error parse ds")
        case None
        with False Ok Inr assms show ?thesis
          by (simp add: extract_try_rendered)
      next
        case (Some e)
        with False Ok Inr assms show ?thesis
          by (simp add: extract_try_def displayContent_eq Let_def)
      qed
    qed
  qed
qed

lemma extract_click_sent:
  assumes "Fetch (GeneratePdf d) \<in> set (snd (extract_click parse files upload generate s))"
  shows "extractedData (fst (extract_click parse files upload generate s)) = d
         \<and> shows_dataset parse d (fst (extract_click parse files upload generate s))"
proof -
  from assms have ne: "files \<noteq> []"
    by (auto simp: extract_click_def)
  let ?s4 = "clearContentPreview
      ((setLoading True
         (setMessage (''Processing '' @ show_nat (length files) @ '' PDF file(s)...'') ''blue'' s))
        \<lparr>download_hidden := True\<rparr>)"
  from assms ne
  have "Fetch (GeneratePdf d) \<in> set (snd (snd (extract_try parse upload generate ?s4)))"
    by (auto simp: extract_click_def Let_def split: prod.splits option.splits)
  then obtain status where u: "upload = Ok status (Inr d)" and d: "d \<noteq> []"
    and r: "render_error parse d = None"
    using extract_try_sent by blast
  from ne u d r show ?thesis
    by (cases generate)
      (simp_all add: extract_click_def extract_try_rendered Let_def setMessage_def
         setLoading_def shows_dataset_def)
qed

lemma download_click_sent:
  assumes "Fetch (GeneratePdf d) \<in> set (snd (download_click generate s))"
  shows "extractedData s = d \<and> d \<noteq> []"
  using assms
  by (auto simp: download_click_def download_try_def Let_def setMessage_def setLoading_def
      split: if_splits fetch_outcome.splits sum.splits)

text \<open>Three extraction attempts on the sample data: one succeeds, one fails, one succeeds.\<close>

lemma render_error_world: "render_error sample_parse [text_item ''b.pdf'' ''World''] = None"
  by (simp add: render_error_def header_step_def type_dispatch_def text_item_def)

lemma first_extraction:
  "fst (extract_click sample_parse [''a.pdf''] (Ok 200 (Inr [text_item ''a.pdf'' ''Hello'']))
          (Ok 200 (Inr ''%PDF'')) page_at_load) =
     page_at_load
       \<lparr>extractedData := [text_item ''a.pdf'' ''Hello''],
        message_text := ''Content extracted successfully! You can now download the PDF.'',
        message_classes :=
          [''text-center'', ''text-lg'', ''mb-4'', ''font-semibold'', ''text-green-600''],
        download_hidden := False, previewTitle_hidden := False,
        contentPreview := preview_of sample_parse [text_item ''a.pdf'' ''Hello'']\<rparr>"
  by (simp add: extract_click_def extract_try_rendered render_error_hello
      Let_def setMessage_def classList_add_def setLoading_def
      clearContentPreview_def page_at_load_def)

lemma failed_extraction:
  "fst (extract_click sample_parse [''b.pdf''] (Rejected ''Failed to fetch'') (Ok 200 (Inr ''%PDF''))
         (page_at_load
           \<lparr>extractedData := [text_item ''a.pdf'' ''Hello''],
            message_text := ''Content extracted successfully! You can now download the PDF.'',
            message_classes :=
              [''text-center'', ''text-lg'', ''mb-4'', ''font-semibold'', ''text-green-600''],
            download_hidden := False, previewTitle_hidden := False,
            contentPreview := preview_of sample_parse [text_item ''a.pdf'' ''Hello'']\<rparr>)) =
     page_at_load
       \<lparr>extractedData := [text_item ''a.pdf'' ''Hello''],
        message_text :=
          ''An error occurred: Failed to fetch. Please check the server console for details.'',
        message_classes :=
          [''text-center'', ''text-lg'', ''mb-4'', ''font-semibold'', ''text-red-600'']\<rparr>"
  by (simp add: extract_click_def extract_try_def Let_def setMessage_def classList_add_def
      setLoading_def clearContentPreview_def page_at_load_def)

lemma third_extraction:
  "fst (extract_click sample_parse [''b.pdf''] (Ok 200 (Inr [text_item ''b.pdf'' ''World'']))
          (NotOk 500 (Inl ''Unexpected end of JSON input''))
         (page_at_load
           \<lparr>extractedData := [text_item ''a.pdf'' ''Hello''],
            message_text :=
              ''An error occurred: Failed to fetch. Please check the server console for details.'',
            message_classes :=
              [''text-center'', ''text-lg'', ''mb-4'', ''font-semibold'', ''text-red-600'']\<rparr>)) =
     page_at_load
       \<lparr>extractedData := [text_item ''b.pdf'' ''World''],
        message_text := ''Content extracted successfully! You can now download the PDF.'',
        message_classes :=
          [''text-center'', ''text-lg'', ''mb-4'', ''font-semibold'', ''text-green-600''],
        download_hidden := False, previewTitle_hidden := False,
        contentPreview := preview_of sample_parse [text_item ''b.pdf'' ''World'']\<rparr>"
  by (simp add: extract_click_def extract_try_rendered render_error_world
      Let_def setMessage_def classList_add_def setLoading_def
      clearContentPreview_def page_at_load_def)

lemma three_attempts:
  "run sample_parse
     [ExtractClick [''a.pdf''] (Ok 200 (Inr [text_item ''a.pdf'' ''Hello'']))
        (Ok 200 (Inr ''%PDF'')),
      ExtractClick [''b.pdf''] (Rejected ''Failed to fetch'') (Ok 200 (Inr ''%PDF'')),
      ExtractClick [''b.pdf''] (Ok 200 (Inr [text_item ''b.pdf'' ''World'']))
        (NotOk 500 (Inl ''Unexpected end of JSON input''))]
     page_at_load =
   page_at_load
     \<lparr>extractedData := [text_item ''b.pdf'' ''World''],
      message_text := ''Content extracted successfully! You can now download the PDF.'',
      message_classes :=
        [''text-center'', ''text-lg'', ''mb-4'', ''font-semibold'', ''text-green-600''],
      download_hidden := False, previewTitle_hidden := False,
      contentPreview := preview_of sample_parse [text_item ''b.pdf'' ''World'']\<rparr>"
  by (simp add: first_extraction failed_extraction third_extraction)

text \<open>
  C2. Start from any page that retains no dataset and handle any sequence of clicks,
  extraction attempts that succeed or fail among them. At the page reached, whenever a
  click that the page offers sends a generation request, the body of the request is
  exactly the retained dataset, and the preview shows the complete rendering of that
  dataset when the handler ends. For a click on the download button (offered only while
  the button is visible and enabled) the same holds at the moment of the click: the
  dataset sent is the one retained and shown then. The request the extract handler sends
  on its own carries the dataset it has just stored and rendered.
\<close>

theorem generate_request_carries_shown_dataset:
  assumes "extractedData s0 = []"
    and "offered c (run parse clicks s0)"
    and "Fetch (GeneratePdf d) \<in> set (snd (handle parse c (run parse clicks s0)))"
  shows "extractedData (fst (handle parse c (run parse clicks s0))) = d
         \<and> shows_dataset parse d (fst (handle parse c (run parse clicks s0)))
         \<and> (is_download c \<longrightarrow>
               extractedData (run parse clicks s0) = d
               \<and> shows_dataset parse d (run parse clicks s0))"
proof (cases c)
  case (ExtractClick files upload generate)
  with assms(3) show ?thesis
    by (simp add: extract_click_sent)
next
  case (DownloadClick generate)
  let ?s = "run parse clicks s0"
  from assms(1) have "agrees parse s0"
    by (simp add: agrees_def)
  then have a: "agrees parse ?s"
    by (rule run_agrees)
  from DownloadClick assms(3) have d: "extractedData ?s = d" "d \<noteq> []"
    using download_click_sent [of d generate ?s] by simp_all
  from DownloadClick assms(2) have "\<not> download_hidden ?s"
    by simp
  with a d have shown: "shows_dataset parse d ?s"
    by (auto simp: agrees_def)
  moreover have "contentPreview (fst (download_click generate ?s)) = contentPreview ?s
      \<and> previewTitle_hidden (fst (download_click generate ?s)) = previewTitle_hidden ?s
      \<and> extractedData (fst (download_click generate ?s)) = extractedData ?s"
    using download_click_frame [of generate ?s] by simp
  ultimately show ?thesis
    using DownloadClick d by (simp add: shows_dataset_def)
qed

theorem generate_request_carries_shown_dataset_witness:
  "extractedData page_at_load = []
   \<and> offered (DownloadClick (Ok 200 (Inr ''%PDF'')))
       (run sample_parse
          [ExtractClick [''a.pdf''] (Ok 200 (Inr [text_item ''a.pdf'' ''Hello'']))
             (Ok 200 (Inr ''%PDF'')),
           ExtractClick [''b.pdf''] (Rejected ''Failed to fetch'') (Ok 200 (Inr ''%PDF'')),
           ExtractClick [''b.pdf''] (Ok 200 (Inr [text_item ''b.pdf'' ''World'']))
             (NotOk 500 (Inl ''Unexpected end of JSON input''))]
          page_at_load)
   \<and> snd (handle sample_parse (DownloadClick (Ok 200 (Inr ''%PDF'')))
       (run sample_parse
          [ExtractClick [''a.pdf''] (Ok 200 (Inr [text_item ''a.pdf'' ''Hello'']))
             (Ok 200 (Inr ''%PDF'')),
           ExtractClick [''b.pdf''] (Rejected ''Failed to fetch'') (Ok 200 (Inr ''%PDF'')),
           ExtractClick [''b.pdf''] (Ok 200 (Inr [text_item ''b.pdf'' ''World'']))
             (NotOk 500 (Inl ''Unexpected end of JSON input''))]
          page_at_load)) =
       [Fetch (GeneratePdf [text_item ''b.pdf'' ''World'']),
        SaveFile ''extracted_content.pdf'' ''%PDF'']
   \<and> shows_dataset sample_parse [text_item ''b.pdf'' ''World'']
       (run sample_parse
          [ExtractClick [''a.pdf''] (Ok 200 (Inr [text_item ''a.pdf'' ''Hello'']))
             (Ok 200 (Inr ''%PDF'')),
           ExtractClick [''b.pdf''] (Rejected ''Failed to fetch'') (Ok 200 (Inr ''%PDF'')),
           ExtractClick [''b.pdf''] (Ok 200 (Inr [text_item ''b.pdf'' ''World'']))
             (NotOk 500 (Inl ''Unexpected end of JSON input''))]
          page_at_load)"
proof -
  let ?s = "run sample_parse
          [ExtractClick [''a.pdf''] (Ok 200 (Inr [text_item ''a.pdf'' ''Hello'']))
             (Ok 200 (Inr ''%PDF'')),
           ExtractClick [''b.pdf''] (Rejected ''Failed to fetch'') (Ok 200 (Inr ''%PDF'')),
           ExtractClick [''b.pdf''] (Ok 200 (Inr [text_item ''b.pdf'' ''World'']))
             (NotOk 500 (Inl ''Unexpected end of JSON input''))]
          page_at_load"
  note s = three_attempts
  have a: "extractedData page_at_load = []"
    by (simp add: page_at_load_def)
  have b: "offered (DownloadClick (Ok 200 (Inr ''%PDF''))) ?s"
    by (simp only: s) (simp add: page_at_load_def)
  have c: "snd (handle sample_parse (DownloadClick (Ok 200 (Inr ''%PDF''))) ?s) =
       [Fetch (GeneratePdf [text_item ''b.pdf'' ''World'']),
        SaveFile ''extracted_content.pdf'' ''%PDF'']"
    by (simp only: s)
      (simp add: download_click_def download_try_def Let_def setMessage_def setLoading_def)
  have "Fetch (GeneratePdf [text_item ''b.pdf'' ''World''])
      \<in> set (snd (handle sample_parse (DownloadClick (Ok 200 (Inr ''%PDF''))) ?s))"
    by (simp only: c) simp
  from generate_request_carries_shown_dataset [OF a b this] a b c
  show ?thesis by simp
qed

section \<open>Properties of the renderer\<close>

text \<open>
  After the header step the tracked source is the item's, whether a header was appended
  or not.
\<close>

lemma header_step_eq:
  "header_step cur it =
     (source_filename it,
      if cur \<noteq> source_filename it then [group_header (source_filename it)] else [])"
  by (simp add: header_step_def)

text \<open>
  What the dispatch appends is never a group header, and is one item block for an item
  of a recognized type and nothing for any other.
\<close>

lemma type_dispatch_nodes:
  assumes "type_dispatch parse it = Inr ns"
  shows "filter is_group_header ns = [] \<and> filter is_item_block ns = ns
         \<and> length ns = (if recognized it then 1 else 0)"
  using assms
  by (auto simp: type_dispatch_def recognized_def text_block_def image_block_def
      table_block_def table_container_def split: if_splits sum.splits)

lemma runs_Cons_pos: "0 < runs (x # xs)"
  by (induction xs arbitrary: x) auto

lemma forEach_items_counts:
  assumes "fst (forEach_items parse ds cur []) = None"
  shows "length (filter is_group_header (snd (forEach_items parse ds cur []))) =
           runs (cur # map source_filename ds) - 1
         \<and> length (filter is_item_block (snd (forEach_items parse ds cur []))) =
           length (filter recognized ds)"
  using assms
proof (induction ds arbitrary: cur)
  case Nil
  show ?case by simp
next
  case (Cons it its)
  let ?src = "source_filename it"
  let ?hs = "if cur \<noteq> ?src then [group_header ?src] else []"
  from Cons.prems obtain ns where ns: "type_dispatch parse it = Inr ns"
    by (cases "type_dispatch parse it") (simp_all add: header_step_eq)
  have step: "forEach_items parse (it # its) cur [] =
      (fst (forEach_items parse its ?src []), (?hs @ ns) @ snd (forEach_items parse its ?src []))"
    using ns forEach_items_kids [of parse its ?src "?hs @ ns"]
    by (simp add: header_step_eq)
  with Cons.prems have ok: "fst (forEach_items parse its ?src []) = None"
    by simp
  note ih = Cons.IH [OF ok]
  note nodes = type_dispatch_nodes [OF ns]
  have pos: "0 < runs (?src # map source_filename its)"
    by (rule runs_Cons_pos)
  have h: "length (filter is_group_header (snd (forEach_items parse (it # its) cur []))) =
      runs (cur # map source_filename (it # its)) - 1"
    unfolding step using ih nodes pos by (simp add: group_header_def)
  have b: "length (filter is_item_block (snd (forEach_items parse (it # its) cur []))) =
      length (filter recognized (it # its))"
    unfolding step using ih nodes by (simp add: group_header_def)
  from h b show ?case ..
qed

lemma displayContent_counts:
  assumes "fst (displayContent parse ds s) = None"
  shows "length (filter is_group_header (contentPreview (snd (displayContent parse ds s)))) =
           runs ('''' # map source_filename ds) - 1
         \<and> length (filter is_item_block (contentPreview (snd (displayContent parse ds s)))) =
           length (filter recognized ds)"
  using assms forEach_items_counts [of parse ds "''''"]
  by (simp add: displayContent_eq render_error_def preview_of_def initialMsgP_def)

subsection \<open>The preview as a function of the dataset\<close>

text \<open>
  The header the loop creates is the element written out in \<open>header_for\<close>: its text is
  never empty.
\<close>

lemma group_header_eq: "group_header name = header_for name"
  by (simp add: group_header_def header_for_def set_text_def)

lemma forEach_items_layout:
  assumes "fst (forEach_items parse ds cur []) = None"
  shows "snd (forEach_items parse ds cur []) =
           concat (map (\<lambda>(previous, it).
                          (if source_filename it \<noteq> previous
                           then [header_for (source_filename it)] else [])
                          @ block_of parse it)
                     (zip (cur # map source_filename ds) ds))"
  using assms
proof (induction ds arbitrary: cur)
  case Nil
  show ?case by simp
next
  case (Cons it its)
  let ?src = "source_filename it"
  let ?hs = "if cur \<noteq> ?src then [group_header ?src] else []"
  from Cons.prems obtain ns where ns: "type_dispatch parse it = Inr ns"
    by (cases "type_dispatch parse it") (simp_all add: header_step_eq)
  have step: "forEach_items parse (it # its) cur [] =
      (fst (forEach_items parse its ?src []), (?hs @ ns) @ snd (forEach_items parse its ?src []))"
    using ns forEach_items_kids [of parse its ?src "?hs @ ns"]
    by (simp add: header_step_eq)
  with Cons.prems have ok: "fst (forEach_items parse its ?src []) = None"
    by simp
  note ih = Cons.IH [OF ok]
  show ?case
    unfolding step using ih ns by (auto simp: block_of_def group_header_eq)
qed

text \<open>The loop ends without error exactly when the dispatch does on every item.\<close>

lemma forEach_items_ok_iff:
  "(fst (forEach_items parse ds cur kids) = None) = list_all (renders parse) ds"
  by (induction ds arbitrary: cur kids)
    (auto simp: renders_def header_step_eq split: sum.splits)

lemma render_error_iff: "(render_error parse ds = None) = list_all (renders parse) ds"
  by (simp add: render_error_def forEach_items_ok_iff)

text \<open>The loop on a dataset cut in two, when the first part renders without error.\<close>

lemma forEach_items_append:
  assumes "fst (forEach_items parse pre cur kids) = None"
  shows "forEach_items parse (pre @ rest) cur kids =
           forEach_items parse rest (if pre = [] then cur else source_filename (last pre))
             (snd (forEach_items parse pre cur kids))"
  using assms
proof (induction pre arbitrary: cur kids)
  case Nil
  show ?case by simp
next
  case (Cons p ps)
  from Cons.prems obtain ns where ns: "type_dispatch parse p = Inr ns"
    by (cases "type_dispatch parse p") (simp_all add: header_step_eq)
  let ?k = "kids @ snd (header_step cur p) @ ns"
  from Cons.prems ns have ok: "fst (forEach_items parse ps (source_filename p) ?k) = None"
    by (simp add: header_step_eq)
  from Cons.IH [OF ok] ns show ?case
    by (simp add: header_step_eq)
qed

lemma displayContent_reaches:
  assumes "render_error parse pre = None" and "type_dispatch parse it = Inr ns"
  shows "contentPreview (snd (displayContent parse (pre @ it # post) s)) =
           contentPreview (snd (displayContent parse pre s))
           @ (if source_filename it \<noteq> source_after pre
              then [header_for (source_filename it)] else [])
           @ ns
           @ snd (forEach_items parse post (source_filename it) [])"
proof -
  let ?K = "snd (forEach_items parse pre '''' [])"
  let ?hs = "if source_filename it \<noteq> source_after pre
             then [header_for (source_filename it)] else []"
  from assms(1) have "forEach_items parse (pre @ it # post) '''' [] =
      forEach_items parse (it # post) (source_after pre) ?K"
    using forEach_items_append [of parse pre "''''" "[]" "it # post"]
    by (simp add: render_error_def source_after_def)
  also have "\<dots> = forEach_items parse post (source_filename it) (?K @ ?hs @ ns)"
    using assms(2) by (auto simp: header_step_eq group_header_eq)
  finally have "snd (forEach_items parse (pre @ it # post) '''' []) =
      (?K @ ?hs @ ns) @ snd (forEach_items parse post (source_filename it) [])"
    using forEach_items_kids [of parse post "source_filename it" "?K @ ?hs @ ns"]
    by simp
  then show ?thesis
    by (simp add: displayContent_eq preview_of_def)
qed

text \<open>
  C1, as the code has it. \<open>displayContent\<close> ends without error exactly when the dispatch
  does on every item of the dataset. Then the children of the
  preview are the placeholder followed by the layout the specification describes: for
  every item in input order, first the group header labelled with the item's
  \<open>source_filename\<close>, present exactly when that \<open>source_filename\<close> differs from the one of
  the item before (from the empty string for the first item), then the item's block.
  Consequently the preview holds as many item blocks as the dataset has items of a
  recognized type, and as many group headers as there are changes of \<open>source_filename\<close>
  along the dataset, the first item compared with the empty string: that is the number of
  maximal runs of equal \<open>source_filename\<close> when the dataset is empty or its first
  \<open>source_filename\<close> is not the empty string.
\<close>

theorem group_headers_and_item_blocks:
  "(fst (displayContent parse ds s) = None) = list_all (renders parse) ds
   \<and> (list_all (renders parse) ds \<longrightarrow>
     contentPreview (snd (displayContent parse ds s)) =
       initialMsgP [''text-gray-500'', ''text-center'', ''hidden''] # spec_layout parse ds
     \<and> length (filter is_item_block (contentPreview (snd (displayContent parse ds s)))) =
         length (filter recognized ds)
     \<and> length (filter is_group_header (contentPreview (snd (displayContent parse ds s)))) =
         runs ('''' # map source_filename ds) - 1
     \<and> (ds = [] \<or> source_filename (hd ds) \<noteq> '''' \<longrightarrow>
          length (filter is_group_header (contentPreview (snd (displayContent parse ds s)))) =
            runs (map source_filename ds)))"
proof -
  have ok: "(fst (displayContent parse ds s) = None) = list_all (renders parse) ds"
    by (simp add: displayContent_eq render_error_iff)
  have r: "runs ('''' # map source_filename ds) - 1 = runs (map source_filename ds)"
    if "ds = [] \<or> source_filename (hd ds) \<noteq> ''''"
    using that by (cases ds) auto
  have l: "contentPreview (snd (displayContent parse ds s)) =
      initialMsgP [''text-gray-500'', ''text-center'', ''hidden''] # spec_layout parse ds"
    if "fst (displayContent parse ds s) = None"
    using that forEach_items_layout [of parse ds "''''"]
    by (simp add: displayContent_eq render_error_def preview_of_def spec_layout_def
        with_previous_def)
  from r l ok show ?thesis
    using displayContent_counts [of parse ds s] by simp
qed

lemma scenario_preview:
  "displayContent sample_parse scenario page_at_load =
     (None,
      page_at_load\<lparr>previewTitle_hidden := False,
        contentPreview :=
          [initialMsgP [''text-gray-500'', ''text-center'', ''hidden''],
           header_for ''a.pdf'',
           text_block (text_item ''a.pdf'' ''Hello''),
           text_block (text_item ''a.pdf'' ''World''),
           header_for ''b.pdf'',
           text_block (text_item ''b.pdf'' ''Foo'')]\<rparr>)"
  by (simp add: displayContent_eq render_error_def preview_of_def scenario_def header_step_def
      type_dispatch_def text_item_def group_header_eq)

theorem group_headers_and_item_blocks_witness:
  "list_all (renders sample_parse) scenario
   \<and> fst (displayContent sample_parse scenario page_at_load) = None
   \<and> contentPreview (snd (displayContent sample_parse scenario page_at_load)) =
       [initialMsgP [''text-gray-500'', ''text-center'', ''hidden''],
        header_for ''a.pdf'',
        text_block (text_item ''a.pdf'' ''Hello''),
        text_block (text_item ''a.pdf'' ''World''),
        header_for ''b.pdf'',
        text_block (text_item ''b.pdf'' ''Foo'')]
   \<and> spec_layout sample_parse scenario =
       [header_for ''a.pdf'',
        text_block (text_item ''a.pdf'' ''Hello''),
        text_block (text_item ''a.pdf'' ''World''),
        header_for ''b.pdf'',
        text_block (text_item ''b.pdf'' ''Foo'')]
   \<and> length (filter is_item_block
        (contentPreview (snd (displayContent sample_parse scenario page_at_load)))) = 3
   \<and> length (filter is_group_header
        (contentPreview (snd (displayContent sample_parse scenario page_at_load)))) = 2
   \<and> runs (map source_filename scenario) = 2
   \<and> source_filename (hd scenario) \<noteq> ''''"
proof -
  let ?kids = "contentPreview (snd (displayContent sample_parse scenario page_at_load))"
  have ok: "fst (displayContent sample_parse scenario page_at_load) = None"
    by (simp add: scenario_preview)
  have kids: "?kids =
       [initialMsgP [''text-gray-500'', ''text-center'', ''hidden''],
        header_for ''a.pdf'',
        text_block (text_item ''a.pdf'' ''Hello''),
        text_block (text_item ''a.pdf'' ''World''),
        header_for ''b.pdf'',
        text_block (text_item ''b.pdf'' ''Foo'')]"
    by (simp add: scenario_preview)
  have src: "map source_filename scenario = [''a.pdf'', ''a.pdf'', ''b.pdf'']"
    by (simp add: scenario_def text_item_def)
  have rec: "filter recognized scenario = scenario"
    by (simp add: scenario_def text_item_def recognized_def)
  have first: "source_filename (hd scenario) \<noteq> ''''"
    by (simp add: scenario_def text_item_def)
  from group_headers_and_item_blocks
    [where parse = sample_parse and ds = scenario and s = page_at_load] ok
  have all: "list_all (renders sample_parse) scenario"
    by blast
  from group_headers_and_item_blocks
    [where parse = sample_parse and ds = scenario and s = page_at_load] all first
  have "?kids =
      initialMsgP [''text-gray-500'', ''text-center'', ''hidden''] # spec_layout sample_parse scenario"
    and "length (filter is_item_block ?kids) = length (filter recognized scenario)"
    and "length (filter is_group_header ?kids) = runs (map source_filename scenario)"
    by blast+
  with kids src rec ok first all show ?thesis
    by (simp add: scenario_def)
qed

text \<open>
  C1 as stated fails on two datasets. An item whose \<open>source_filename\<close> is the empty string
  gets no header when it comes first: one run, no header. And a table item whose payload
  does not decode makes \<open>displayContent\<close> throw before its block is appended: one item
  of a recognized type, no item block.
\<close>

theorem empty_source_counterexample:
  "fst (displayContent sample_parse [text_item '''' ''Hello''] page_at_load) = None
   \<and> length (filter is_group_header
        (contentPreview (snd (displayContent sample_parse [text_item '''' ''Hello''] page_at_load)))) = 0
   \<and> runs (map source_filename [text_item '''' ''Hello'']) = 1
   \<and> length (filter is_item_block
        (contentPreview (snd (displayContent sample_parse [broken_table] page_at_load)))) = 0
   \<and> length (filter recognized [broken_table]) = 1"
  by (simp add: displayContent_eq render_error_def preview_of_def header_step_def
      type_dispatch_def text_item_def initialMsgP_def text_block_def broken_table_def
      table_block_def sample_parse_def recognized_def group_header_def set_text_def)

text \<open>
  Neither the error of the loop nor the item blocks it appends depend on the tracked
  source or on the children it starts from.
\<close>

lemma forEach_items_error_indep:
  "fst (forEach_items parse ds cur kids) = fst (forEach_items parse ds cur' kids')"
proof (cases ds)
  case Nil
  then show ?thesis by simp
next
  case (Cons it its)
  show ?thesis
  proof (cases "type_dispatch parse it")
    case (Inl e)
    with Cons show ?thesis by (simp add: header_step_eq)
  next
    case (Inr ns)
    let ?src = "source_filename it"
    have "fst (forEach_items parse its ?src (kids @ snd (header_step cur it) @ ns)) =
        fst (forEach_items parse its ?src [])"
      using forEach_items_kids [of parse its ?src "kids @ snd (header_step cur it) @ ns"]
      by simp
    moreover have "fst (forEach_items parse its ?src (kids' @ snd (header_step cur' it) @ ns)) =
        fst (forEach_items parse its ?src [])"
      using forEach_items_kids [of parse its ?src "kids' @ snd (header_step cur' it) @ ns"]
      by simp
    ultimately show ?thesis
      using Cons Inr by (simp add: header_step_eq)
  qed
qed

lemma forEach_items_blocks:
  "filter is_item_block (snd (forEach_items parse ds cur kids)) =
     filter is_item_block kids @ filter is_item_block (snd (forEach_items parse ds cur' []))"
proof (cases ds)
  case Nil
  then show ?thesis by simp
next
  case (Cons it its)
  show ?thesis
  proof (cases "type_dispatch parse it")
    case (Inl e)
    with Cons show ?thesis by (simp add: header_step_eq group_header_def)
  next
    case (Inr ns)
    let ?src = "source_filename it"
    have a: "snd (forEach_items parse its ?src (kids @ snd (header_step cur it) @ ns)) =
        (kids @ snd (header_step cur it) @ ns) @ snd (forEach_items parse its ?src [])"
      using forEach_items_kids [of parse its ?src "kids @ snd (header_step cur it) @ ns"]
      by simp
    have b: "snd (forEach_items parse its ?src (snd (header_step cur' it) @ ns)) =
        (snd (header_step cur' it) @ ns) @ snd (forEach_items parse its ?src [])"
      using forEach_items_kids [of parse its ?src "snd (header_step cur' it) @ ns"]
      by simp
    have "snd (forEach_items parse (it # its) cur kids) =
        (kids @ snd (header_step cur it) @ ns) @ snd (forEach_items parse its ?src [])"
      using Inr a by (simp add: header_step_eq)
    moreover have "snd (forEach_items parse (it # its) cur' []) =
        (snd (header_step cur' it) @ ns) @ snd (forEach_items parse its ?src [])"
      using Inr b by (simp add: header_step_eq)
    ultimately show ?thesis
      using Cons by (simp add: header_step_eq group_header_def)
  qed
qed

lemma unrecognized_dispatch: "\<not> recognized it \<Longrightarrow> type_dispatch parse it = Inr []"
  by (simp add: recognized_def type_dispatch_def)

lemma forEach_items_without:
  assumes "\<not> recognized it"
  shows "fst (forEach_items parse (pre @ it # post) cur kids) =
           fst (forEach_items parse (pre @ post) cur kids)
         \<and> filter is_item_block (snd (forEach_items parse (pre @ it # post) cur kids)) =
           filter is_item_block (snd (forEach_items parse (pre @ post) cur kids))"
proof (induction pre arbitrary: cur kids)
  case Nil
  have e: "fst (forEach_items parse (it # post) cur kids) = fst (forEach_items parse post cur kids)"
    using assms forEach_items_error_indep [of parse post "source_filename it" _ cur kids]
    by (simp add: unrecognized_dispatch header_step_eq)
  have "filter is_item_block (snd (forEach_items parse (it # post) cur kids)) =
      filter is_item_block kids @ filter is_item_block (snd (forEach_items parse post cur []))"
    using assms
      forEach_items_blocks [of parse post "source_filename it" "kids @ snd (header_step cur it)" cur]
    by (simp add: unrecognized_dispatch header_step_eq group_header_def)
  also have "\<dots> = filter is_item_block (snd (forEach_items parse post cur kids))"
    using forEach_items_blocks [of parse post cur kids cur] by simp
  finally show ?case using e by simp
next
  case (Cons p ps)
  show ?case
  proof (cases "type_dispatch parse p")
    case (Inl e)
    then show ?thesis by (simp add: header_step_eq)
  next
    case (Inr ns)
    then show ?thesis
      using Cons.IH [of "source_filename p" "kids @ snd (header_step cur p) @ ns"]
      by (simp add: header_step_eq)
  qed
qed

text \<open>
  C7, as the code has it. For an item whose type is none of \<open>text\<close>, \<open>image\<close> and
  \<open>table\<close> the dispatch appends nothing and throws nothing; all the loop does for the
  item is the header step, which appends the group header of its \<open>source_filename\<close> when
  that differs from the tracked value. With the item anywhere in a dataset,
  \<open>displayContent\<close> throws exactly when it throws on the dataset without the item, and the
  item blocks in the preview are those of the dataset without the item.
\<close>

theorem unrecognized_item_skipped:
  assumes "\<not> recognized it"
  shows "type_dispatch parse it = Inr []
         \<and> forEach_items parse (it # post) cur kids =
             forEach_items parse post (source_filename it)
               (kids @ (if cur \<noteq> source_filename it then [group_header (source_filename it)]
                        else []))
         \<and> fst (displayContent parse (pre @ it # post) s) =
             fst (displayContent parse (pre @ post) s)
         \<and> filter is_item_block
             (contentPreview (snd (displayContent parse (pre @ it # post) s))) =
           filter is_item_block (contentPreview (snd (displayContent parse (pre @ post) s)))"
proof -
  note w = forEach_items_without [OF assms, of parse pre post "''''" "[]"]
  have "forEach_items parse (it # post) cur kids =
      forEach_items parse post (source_filename it)
        (kids @ (if cur \<noteq> source_filename it then [group_header (source_filename it)] else []))"
    using assms by (simp add: unrecognized_dispatch header_step_eq)
  then show ?thesis
    using assms w
    by (simp add: unrecognized_dispatch displayContent_eq render_error_def preview_of_def
        initialMsgP_def)
qed

theorem unrecognized_item_skipped_witness:
  "\<not> recognized audio_item
   \<and> type_dispatch sample_parse audio_item = Inr []
   \<and> fst (displayContent sample_parse
        ([text_item ''a.pdf'' ''Hello''] @ audio_item # [text_item ''a.pdf'' ''World''])
        page_at_load) = None
   \<and> filter is_item_block
        (contentPreview (snd (displayContent sample_parse
           ([text_item ''a.pdf'' ''Hello''] @ audio_item # [text_item ''a.pdf'' ''World''])
           page_at_load))) =
      [text_block (text_item ''a.pdf'' ''Hello''), text_block (text_item ''a.pdf'' ''World'')]"
proof -
  have n: "\<not> recognized audio_item"
    by (simp add: recognized_def audio_item_def)
  have "displayContent sample_parse [text_item ''a.pdf'' ''Hello'', text_item ''a.pdf'' ''World'']
      page_at_load =
     (None,
      page_at_load\<lparr>previewTitle_hidden := False,
        contentPreview :=
          [initialMsgP [''text-gray-500'', ''text-center'', ''hidden''],
           group_header ''a.pdf'',
           text_block (text_item ''a.pdf'' ''Hello''),
           text_block (text_item ''a.pdf'' ''World'')]\<rparr>)"
    by (simp add: displayContent_eq render_error_def preview_of_def header_step_def
        type_dispatch_def text_item_def)
  then show ?thesis
    using n unrecognized_item_skipped
      [OF n, of sample_parse "[text_item ''a.pdf'' ''World'']" "''''" "[]"
         "[text_item ''a.pdf'' ''Hello'']" page_at_load]
    by (simp add: initialMsgP_def group_header_def text_block_def)
qed

text \<open>
  C7 as stated fails on a dataset whose only item has an unrecognized type: the preview
  gets the group header of the item's source, so the item does leave visual output, and
  the preview is not the one of the empty dataset.
\<close>

theorem unrecognized_item_header_counterexample:
  "\<not> recognized audio_item
   \<and> displayContent sample_parse [audio_item] page_at_load =
       (None,
        page_at_load\<lparr>previewTitle_hidden := False,
          contentPreview :=
            [initialMsgP [''text-gray-500'', ''text-center'', ''hidden''],
             Element ''h3'' [] [''text-xl'', ''font-bold'', ''text-gray-700'', ''mt-6'', ''mb-2'']
               [Text ''--- Content from: b.pdf ---'']]\<rparr>)
   \<and> contentPreview (snd (displayContent sample_parse [audio_item] page_at_load)) \<noteq>
       contentPreview (snd (displayContent sample_parse [] page_at_load))"
  by (simp add: displayContent_eq render_error_def preview_of_def header_step_def
      type_dispatch_def audio_item_def recognized_def group_header_def set_text_def)

subsection \<open>Text items and table items\<close>

lemma renders_hello: "list_all (renders sample_parse) [text_item ''a.pdf'' ''Hello'']"
  using render_error_hello by (simp add: render_error_iff)

lemma broken_table_throws:
  \<open>type_dispatch sample_parse broken_table =
     Inl (SyntaxError ''Unexpected token 'o', "oops" is not valid JSON'')\<close>
  by (simp add: type_dispatch_def table_block_def broken_table_def sample_parse_def)

text \<open>
  C3, as the code has it. Take a text item anywhere in a dataset, such that the dispatch
  ends without error on every item before it. Whatever its content is, the preview then
  holds, whatever the items after it do, right
  after what the items before it have produced and after the group header if one is due,
  a paragraph whose only child is one text node holding the content unchanged (no child
  when the content is empty), followed by what the items after it produce. The paragraph
  has no element among its children, and its text is the content.
\<close>

theorem text_item_literal:
  assumes "type it = ''text''" and "list_all (renders parse) pre"
  shows "contentPreview (snd (displayContent parse (pre @ it # post) s)) =
           contentPreview (snd (displayContent parse pre s))
           @ (if source_filename it \<noteq> source_after pre
              then [header_for (source_filename it)] else [])
           @ [Element ''p'' [] [''mb-2'', ''text-gray-800'']
                (if content it = [] then [] else [Text (content it)])]
           @ snd (forEach_items parse post (source_filename it) [])
         \<and> text_content
             (Element ''p'' [] [''mb-2'', ''text-gray-800'']
                (if content it = [] then [] else [Text (content it)])) = content it
         \<and> filter is_element (if content it = [] then [] else [Text (content it)]) = []"
proof -
  from assms(1) have "type_dispatch parse it =
      Inr [Element ''p'' [] [''mb-2'', ''text-gray-800'']
             (if content it = [] then [] else [Text (content it)])]"
    by (simp add: type_dispatch_def text_block_def set_text_def)
  moreover from assms(2) have "render_error parse pre = None"
    by (simp add: render_error_iff)
  ultimately show ?thesis
    using displayContent_reaches [of parse pre it _ post s]
    by simp
qed

theorem text_item_literal_witness:
  "type (text_item ''b.pdf'' ''<script>alert(1)</script>'') = ''text''
   \<and> list_all (renders sample_parse) [text_item ''a.pdf'' ''Hello'']
   \<and> contentPreview
        (snd (displayContent sample_parse
                ([text_item ''a.pdf'' ''Hello'']
                   @ text_item ''b.pdf'' ''<script>alert(1)</script>'' # [])
                page_at_load)) =
       [initialMsgP [''text-gray-500'', ''text-center'', ''hidden''],
        header_for ''a.pdf'',
        Element ''p'' [] [''mb-2'', ''text-gray-800''] [Text ''Hello''],
        header_for ''b.pdf'',
        Element ''p'' [] [''mb-2'', ''text-gray-800''] [Text ''<script>alert(1)</script>'']]"
proof -
  have t: "type (text_item ''b.pdf'' ''<script>alert(1)</script>'') = ''text''"
    by (simp add: text_item_def)
  have p: "contentPreview (snd (displayContent sample_parse [text_item ''a.pdf'' ''Hello'']
      page_at_load)) =
      [initialMsgP [''text-gray-500'', ''text-center'', ''hidden''],
       header_for ''a.pdf'',
       Element ''p'' [] [''mb-2'', ''text-gray-800''] [Text ''Hello'']]"
    by (simp add: displayContent_eq preview_of_def header_step_def type_dispatch_def
        text_item_def group_header_eq text_block_def set_text_def)
  from text_item_literal [OF t renders_hello, of "[]" page_at_load] t renders_hello p
  show ?thesis
    by (simp add: source_after_def text_item_def)
qed

text \<open>
  C3 as stated fails for a text item that comes after a table item whose payload does not
  decode: \<open>displayContent\<close> throws at the table, the loop never reaches the text item, and
  its content is not inserted in the preview at all.
\<close>

theorem text_item_not_reached_counterexample:
  \<open>type (text_item ''a.pdf'' ''Hello'') = ''text''
   \<and> displayContent sample_parse [broken_table, text_item ''a.pdf'' ''Hello''] page_at_load =
       (Some (SyntaxError ''Unexpected token 'o', "oops" is not valid JSON''),
        page_at_load\<lparr>previewTitle_hidden := False,
          contentPreview :=
            [initialMsgP [''text-gray-500'', ''text-center'', ''hidden''],
             header_for ''a.pdf'']\<rparr>)
   \<and> filter is_item_block
        (contentPreview
           (snd (displayContent sample_parse [broken_table, text_item ''a.pdf'' ''Hello'']
                   page_at_load))) = []\<close>
  by (simp add: displayContent_eq render_error_def preview_of_def header_step_def
      broken_table_throws group_header_eq)
    (simp add: broken_table_def text_item_def header_for_def initialMsgP_def)





end
